theory Spec2Isabelle
  imports Complex_Main
begin

section \<open>The particle Christmas tree: a model of its arithmetic and state\<close>

text \<open>
  JavaScript numbers are modelled as mathematical reals: every statement below is about
  the formulas the code evaluates, not about the rounding of IEEE doubles.
  \<open>Math.random()\<close> is an effect; each function that calls it takes the values
  drawn as explicit arguments, in the order the source draws them.
\<close>

subsection \<open>types.ts: the application mode\<close>

datatype AppMode = TREE | EXPLODE

subsection \<open>App.tsx: the click toggle\<close>

text \<open>\<open>setMode((prev) => (prev === AppMode.TREE ? AppMode.EXPLODE : AppMode.TREE))\<close>\<close>

definition toggleMode :: "AppMode \<Rightarrow> AppMode" where
  "toggleMode prev = (if prev = TREE then EXPLODE else TREE)"

subsection \<open>Library functions of JavaScript and three.js used by the code\<close>

record Vector3 =
  vx :: real
  vy :: real
  vz :: real

definition Math_cbrt :: "real \<Rightarrow> real" where
  "Math_cbrt a = root 3 a"

definition Math_acos :: "real \<Rightarrow> real" where
  "Math_acos a = arccos a"

definition Math_hypot :: "real \<Rightarrow> real \<Rightarrow> real" where
  "Math_hypot a b = sqrt (a\<^sup>2 + b\<^sup>2)"

text \<open>\<open>Vector3.length()\<close>: the Euclidean norm.\<close>

definition v3_length :: "Vector3 \<Rightarrow> real" where
  "v3_length p = sqrt ((vx p)\<^sup>2 + (vy p)\<^sup>2 + (vz p)\<^sup>2)"

text \<open>The distance of a point from the vertical (y) axis.\<close>

definition axisDistance :: "Vector3 \<Rightarrow> real" where
  "axisDistance p = sqrt ((vx p)\<^sup>2 + (vz p)\<^sup>2)"

text \<open>\<open>THREE.MathUtils.lerp(x, y, t)\<close> is \<open>(1 - t) * x + t * y\<close>.\<close>

definition lerp :: "real \<Rightarrow> real \<Rightarrow> real \<Rightarrow> real" where
  "lerp a b t = (1 - t) * a + t * b"

subsection \<open>services/mathUtils.ts\<close>

text \<open>
  \<open>getRandomSpherePoint(radius)\<close>; \<open>u\<close>, \<open>v\<close>, \<open>w\<close> are its three
  \<open>Math.random()\<close> values in call order.
\<close>

definition getRandomSpherePoint :: "real \<Rightarrow> real \<Rightarrow> real \<Rightarrow> real \<Rightarrow> Vector3" where
  "getRandomSpherePoint radius u v w =
     (let theta = 2 * pi * u;
          phi = Math_acos (2 * v - 1);
          r = Math_cbrt w * radius;
          sinPhi = sin phi;
          x = r * sinPhi * cos theta;
          y = r * sinPhi * sin theta;
          z = r * cos phi
      in \<lparr>vx = x, vy = y, vz = z\<rparr>)"

text \<open>
  \<open>getTreePosition(index, total, radiusBase, height, yOffset)\<close>; \<open>rnd\<close> is its one
  \<open>Math.random()\<close> value.
\<close>

definition getTreePosition :: "real \<Rightarrow> real \<Rightarrow> real \<Rightarrow> real \<Rightarrow> real \<Rightarrow> real \<Rightarrow> Vector3" where
  "getTreePosition index total' radiusBase height yOffset rnd =
     (let goldenAngle = pi * (3 - sqrt 5);
          y = (index / total') * height;
          radiusAtY = radiusBase * (1 - y / height);
          theta = index * goldenAngle;
          rNoise = (rnd - 0.5) * 0.5;
          finalRadius = max 0 (radiusAtY + rNoise);
          x = cos theta * finalRadius;
          z = sin theta * finalRadius
      in \<lparr>vx = x, vy = y + yOffset, vz = z\<rparr>)"

text \<open>\<open>getRibbonPosition(t, radiusBase, height, turns, yOffset)\<close>.\<close>

definition getRibbonPosition :: "real \<Rightarrow> real \<Rightarrow> real \<Rightarrow> real \<Rightarrow> real \<Rightarrow> Vector3" where
  "getRibbonPosition t radiusBase height turns yOffset =
     (let angle = t * pi * 2 * turns;
          y = t * height;
          r = radiusBase * (1 - t) + 0.2;
          x = cos angle * r;
          z = sin angle * r
      in \<lparr>vx = x, vy = y + yOffset, vz = z\<rparr>)"

text \<open>The default value of the optional last parameter of both placement functions.\<close>

definition default_yOffset :: real where
  "default_yOffset = - 2"

subsection \<open>types.ts and App.tsx: gesture state and application state\<close>

record GestureState =
  isHandDetected :: bool
  isPinching :: bool
  isOpen :: bool
  handPosition :: "real \<times> real"
  rotationOffset :: real

text \<open>The two \<open>useState\<close> cells of \<open>App\<close>.\<close>

record App =
  mode :: AppMode
  gestureState :: GestureState

definition initialApp :: App where
  "initialApp =
     \<lparr>mode = TREE,
      gestureState = \<lparr>isHandDetected = False, isPinching = False, isOpen = False,
                       handPosition = (0.5, 0.5), rotationOffset = 0\<rparr>\<rparr>"

text \<open>\<open>handleModeTrigger\<close>: \<open>setMode(newMode)\<close>.\<close>

definition handleModeTrigger :: "AppMode \<Rightarrow> App \<Rightarrow> App" where
  "handleModeTrigger newMode a = a\<lparr>mode := newMode\<rparr>"

subsection \<open>components/GestureController.tsx: the gesture logic of predictWebcam\<close>

record NormalizedLandmark =
  lx :: real
  ly :: real
  lz :: real

datatype js_error = TypeError

text \<open>
  Lines 127 to 151: the object handed to \<open>onStateChange\<close> when a hand is detected.
  The code reads the landmarks 0, 4, 8, 9, 12, 16 and 20; reading a field of a missing
  one throws before any callback runs, so a list shorter than 21 yields the error.
\<close>

definition classifyHand :: "NormalizedLandmark list \<Rightarrow> js_error + GestureState" where
  "classifyHand landmarks =
     (if length landmarks < 21 then Inl TypeError
      else
        let thumbTip = landmarks ! 4;
            indexTip = landmarks ! 8;
            distance = Math_hypot (lx thumbTip - lx indexTip) (ly thumbTip - ly indexTip);
            pinching = (distance < 0.08);
            wrist = landmarks ! 0;
            tips = map (\<lambda>i. landmarks ! i) [8, 12, 16, 20];
            avgDist = foldl (\<lambda>acc t. acc + Math_hypot (lx t - lx wrist) (ly t - ly wrist))
                        0 tips / 4;
            opened = (avgDist > 0.3 \<and> \<not> pinching);
            handX = 1.0 - lx (landmarks ! 9);
            handY = ly (landmarks ! 9)
        in Inr \<lparr>isHandDetected = True, isPinching = pinching, isOpen = opened,
                 handPosition = (handX, handY), rotationOffset = (handX - 0.5) * 2\<rparr>)"

text \<open>
  Lines 153 to 155: the calls of \<open>onModeTrigger\<close>, in order.
  \<open>if (isPinching) onModeTrigger(AppMode.TREE); if (isOpen) onModeTrigger(AppMode.EXPLODE);\<close>
\<close>

definition modeTriggers :: "GestureState \<Rightarrow> AppMode list" where
  "modeTriggers g =
     (if isPinching g then [TREE] else []) @ (if isOpen g then [EXPLODE] else [])"

text \<open>
  The branch of \<open>predictWebcam\<close> that runs for a new video frame, as a function of
  \<open>results.landmarks\<close> (one landmark list per detected hand) on the state of \<open>App\<close>:
  \<open>onStateChange\<close> merges the object into the gesture state, then the triggers set
  the mode.
\<close>

definition onResults :: "NormalizedLandmark list list \<Rightarrow> App \<Rightarrow> js_error + App" where
  "onResults results_landmarks a =
     (case results_landmarks of
        [] \<Rightarrow> Inr (a\<lparr>gestureState := (gestureState a)\<lparr>isHandDetected := False\<rparr>\<rparr>)
      | landmarks # _ \<Rightarrow>
          (case classifyHand landmarks of
             Inl e \<Rightarrow> Inl e
           | Inr g \<Rightarrow>
               Inr (foldl (\<lambda>a' m. handleModeTrigger m a') (a\<lparr>gestureState := g\<rparr>)
                      (modeTriggers g))))"

text \<open>The average fingertip-to-wrist distance of line 137, written out.\<close>

definition tipDistance :: "NormalizedLandmark list \<Rightarrow> nat \<Rightarrow> real" where
  "tipDistance landmarks i =
     Math_hypot (lx (landmarks ! i) - lx (landmarks ! 0)) (ly (landmarks ! i) - ly (landmarks ! 0))"

definition avgTipDistance :: "NormalizedLandmark list \<Rightarrow> real" where
  "avgTipDistance landmarks =
     (tipDistance landmarks 8 + tipDistance landmarks 12
      + tipDistance landmarks 16 + tipDistance landmarks 20) / 4"

definition pinchDistance :: "NormalizedLandmark list \<Rightarrow> real" where
  "pinchDistance landmarks =
     Math_hypot (lx (landmarks ! 4) - lx (landmarks ! 8)) (ly (landmarks ! 4) - ly (landmarks ! 8))"

subsection \<open>A store of Vector3 objects\<close>

text \<open>
  The vectors of three.js are mutable objects, and the frame loop mutates some of them in
  place. The model keeps every \<open>Vector3\<close> in a store: a reference is an address, \<open>lim\<close>
  is the next free one, and \<open>draws\<close> counts the calls of \<open>Math.random()\<close> so far.
\<close>

type_synonym ref = nat

record runtime =
  heap :: "ref \<Rightarrow> Vector3"
  lim :: ref
  draws :: nat

definition new_Vector3 :: "Vector3 \<Rightarrow> runtime \<Rightarrow> ref \<times> runtime" where
  "new_Vector3 v r = (lim r, r\<lparr>heap := (heap r)(lim r := v), lim := Suc (lim r)\<rparr>)"

text \<open>\<open>rng k\<close> is the value of the k-th call of \<open>Math.random()\<close>.\<close>

definition Math_random :: "(nat \<Rightarrow> real) \<Rightarrow> runtime \<Rightarrow> real \<times> runtime" where
  "Math_random rng r = (rng (draws r), r\<lparr>draws := Suc (draws r)\<rparr>)"

text \<open>\<open>this.lerpVectors(v1, v2, alpha)\<close>: \<open>this = v1 + (v2 - v1) * alpha\<close>, in place.\<close>

definition lerpVectors :: "ref \<Rightarrow> ref \<Rightarrow> ref \<Rightarrow> real \<Rightarrow> runtime \<Rightarrow> runtime" where
  "lerpVectors this v1 v2 alpha r =
     (let a = heap r v1; b = heap r v2
      in r\<lparr>heap := (heap r)(this :=
            \<lparr>vx = vx a + (vx b - vx a) * alpha,
             vy = vy a + (vy b - vy a) * alpha,
             vz = vz a + (vz b - vz a) * alpha\<rparr>)\<rparr>)"

text \<open>\<open>this.clone()\<close>: a new object with the same coordinates.\<close>

definition clone :: "ref \<Rightarrow> runtime \<Rightarrow> ref \<times> runtime" where
  "clone this r = new_Vector3 (heap r this) r"

text \<open>\<open>this.multiplyScalar(k)\<close> and \<open>this.setScalar(k)\<close>, both in place.\<close>

definition multiplyScalar :: "ref \<Rightarrow> real \<Rightarrow> runtime \<Rightarrow> runtime" where
  "multiplyScalar this k r =
     (let a = heap r this
      in r\<lparr>heap := (heap r)(this := \<lparr>vx = vx a * k, vy = vy a * k, vz = vz a * k\<rparr>)\<rparr>)"

definition setScalar :: "ref \<Rightarrow> real \<Rightarrow> runtime \<Rightarrow> runtime" where
  "setScalar this k r = r\<lparr>heap := (heap r)(this := \<lparr>vx = k, vy = k, vz = k\<rparr>)\<rparr>"

text \<open>\<open>this.y += d\<close>.\<close>

definition add_y :: "ref \<Rightarrow> real \<Rightarrow> runtime \<Rightarrow> runtime" where
  "add_y this d r = r\<lparr>heap := (heap r)(this := (heap r this)\<lparr>vy := vy (heap r this) + d\<rparr>)\<rparr>"

text \<open>
  An \<open>Object3D\<close> owns a position and a scale vector; its Euler rotation is kept by value.
  A \<open>Matrix4\<close> is kept as the position, rotation and scale it was composed from.
\<close>

record Matrix4 =
  m_position :: Vector3
  m_rotation :: Vector3
  m_scale :: Vector3

record Object3D =
  o_position :: ref
  o_rotation :: Vector3
  o_scale :: ref
  o_matrix :: Matrix4

definition identityMatrix :: Matrix4 where
  "identityMatrix = \<lparr>m_position = \<lparr>vx = 0, vy = 0, vz = 0\<rparr>,
                     m_rotation = \<lparr>vx = 0, vy = 0, vz = 0\<rparr>,
                     m_scale = \<lparr>vx = 1, vy = 1, vz = 1\<rparr>\<rparr>"

definition new_Object3D :: "runtime \<Rightarrow> Object3D \<times> runtime" where
  "new_Object3D r0 =
     (let (p, r1) = new_Vector3 \<lparr>vx = 0, vy = 0, vz = 0\<rparr> r0;
          (sc, r2) = new_Vector3 \<lparr>vx = 1, vy = 1, vz = 1\<rparr> r1
      in (\<lparr>o_position = p, o_rotation = \<lparr>vx = 0, vy = 0, vz = 0\<rparr>, o_scale = sc,
           o_matrix = identityMatrix\<rparr>, r2))"

text \<open>\<open>updateMatrix()\<close>: compose the matrix from position, rotation and scale.\<close>

definition updateMatrix :: "runtime \<Rightarrow> Object3D \<Rightarrow> Object3D" where
  "updateMatrix r ob =
     ob\<lparr>o_matrix := \<lparr>m_position = heap r (o_position ob), m_rotation = o_rotation ob,
                      m_scale = heap r (o_scale ob)\<rparr>\<rparr>"

record InstancedMesh =
  instanceMatrix :: "Matrix4 list"
  needsUpdate :: bool

text \<open>\<open>setMatrixAt(i, m)\<close> copies the matrix into slot \<open>i\<close>; a write past the end of
  the typed array is dropped.\<close>

definition setMatrixAt :: "nat \<Rightarrow> Matrix4 \<Rightarrow> InstancedMesh \<Rightarrow> InstancedMesh" where
  "setMatrixAt i m mesh = mesh\<lparr>instanceMatrix := (instanceMatrix mesh)[i := m]\<rparr>"

definition new_InstancedMesh :: "nat \<Rightarrow> InstancedMesh" where
  "new_InstancedMesh n = \<lparr>instanceMatrix = replicate n identityMatrix, needsUpdate = False\<rparr>"

subsection \<open>mathUtils.ts as called: the draws come from Math.random, the result is a new object\<close>

definition call_getRandomSpherePoint ::
  "(nat \<Rightarrow> real) \<Rightarrow> real \<Rightarrow> runtime \<Rightarrow> ref \<times> runtime" where
  "call_getRandomSpherePoint rng radius r0 =
     (let (u, r1) = Math_random rng r0;
          (v, r2) = Math_random rng r1;
          (w, r3) = Math_random rng r2
      in new_Vector3 (getRandomSpherePoint radius u v w) r3)"

definition call_getTreePosition ::
  "(nat \<Rightarrow> real) \<Rightarrow> real \<Rightarrow> real \<Rightarrow> real \<Rightarrow> real \<Rightarrow> real \<Rightarrow> runtime \<Rightarrow> ref \<times> runtime" where
  "call_getTreePosition rng index total' radiusBase height yOffset r0 =
     (let (rnd, r1) = Math_random rng r0
      in new_Vector3 (getTreePosition index total' radiusBase height yOffset rnd) r1)"

definition call_getRibbonPosition ::
  "real \<Rightarrow> real \<Rightarrow> real \<Rightarrow> real \<Rightarrow> real \<Rightarrow> runtime \<Rightarrow> ref \<times> runtime" where
  "call_getRibbonPosition t radiusBase height turns yOffset r0 =
     new_Vector3 (getRibbonPosition t radiusBase height turns yOffset) r0"

subsection \<open>components/ChristmasTree.tsx: constants and data generation\<close>

definition COUNT_LEAVES :: nat where "COUNT_LEAVES = 5000"
definition COUNT_ORNAMENTS :: nat where "COUNT_ORNAMENTS = 1500"
definition COUNT_RIBBON :: nat where "COUNT_RIBBON = 800"
definition EXPLOSION_RADIUS :: real where "EXPLOSION_RADIUS = 15"
definition TREE_HEIGHT :: real where "TREE_HEIGHT = 10"
definition TREE_RADIUS :: real where "TREE_RADIUS = 3.5"
definition TREE_Y_OFFSET :: real where "TREE_Y_OFFSET = - 3.5"

text \<open>The objects built by the three \<open>useMemo\<close> generators: two vectors and a number.\<close>

record particle =
  treePos :: ref
  explodePos :: ref
  scale :: real

text \<open>\<open>Array.from({ length: n }).map((_, i) => f(i))\<close>, for the indices given.\<close>

fun generate ::
  "(nat \<Rightarrow> runtime \<Rightarrow> particle \<times> runtime) \<Rightarrow> nat list \<Rightarrow> runtime \<Rightarrow> particle list \<times> runtime" where
  "generate f [] r = ([], r)"
| "generate f (i # is) r =
     (let (p, r1) = f i r;
          (ps, r2) = generate f is r1
      in (p # ps, r2))"

definition makeLeaf :: "(nat \<Rightarrow> real) \<Rightarrow> nat \<Rightarrow> runtime \<Rightarrow> particle \<times> runtime" where
  "makeLeaf rng i r0 =
     (let (tp, r1) = call_getTreePosition rng (real i) (real COUNT_LEAVES) TREE_RADIUS
                       TREE_HEIGHT TREE_Y_OFFSET r0;
          (ep, r2) = call_getRandomSpherePoint rng EXPLOSION_RADIUS r1;
          (rnd, r3) = Math_random rng r2
      in (\<lparr>treePos = tp, explodePos = ep, scale = rnd * 0.15 + 0.05\<rparr>, r3))"

definition makeOrnament :: "(nat \<Rightarrow> real) \<Rightarrow> nat \<Rightarrow> runtime \<Rightarrow> particle \<times> runtime" where
  "makeOrnament rng i r0 =
     (let (tp, r1) = call_getTreePosition rng (real i) (real COUNT_ORNAMENTS)
                       (TREE_RADIUS * 1.1) TREE_HEIGHT TREE_Y_OFFSET r0;
          (rnd, r2) = Math_random rng r1;
          r3 = add_y tp (rnd - 0.5) r2;
          (ep, r4) = call_getRandomSpherePoint rng (EXPLOSION_RADIUS * 1.2) r3;
          (rnd', r5) = Math_random rng r4
      in (\<lparr>treePos = tp, explodePos = ep, scale = rnd' * 0.05 + 0.02\<rparr>, r5))"

definition makeRibbon :: "(nat \<Rightarrow> real) \<Rightarrow> nat \<Rightarrow> runtime \<Rightarrow> particle \<times> runtime" where
  "makeRibbon rng i r0 =
     (let t = real i / real COUNT_RIBBON;
          (tp, r1) = call_getRibbonPosition t (TREE_RADIUS + 0.2) TREE_HEIGHT 3.5
                       TREE_Y_OFFSET r0;
          (ep, r2) = call_getRandomSpherePoint rng (EXPLOSION_RADIUS * 1.5) r1
      in (\<lparr>treePos = tp, explodePos = ep, scale = 0.08\<rparr>, r2))"

subsection \<open>components/ChristmasTree.tsx: the component state\<close>

text \<open>
  \<open>refsAttached\<close> says that the five refs tested at the top of the frame callback are
  non-null; the meshes, the group rotation and the star are the objects they point to.
  The star shape and the instance colours play no part in the frame loop and are left out.
\<close>

record scene =
  rt :: runtime
  dummy :: Object3D
  leavesData :: "particle list"
  ornamentsData :: "particle list"
  ribbonData :: "particle list"
  starExplodePos :: ref
  starTreePos :: ref
  transitionRef :: real
  refsAttached :: bool
  leavesMesh :: InstancedMesh
  ornamentsMesh :: InstancedMesh
  ribbonMesh :: InstancedMesh
  groupRotation :: Vector3
  star :: Object3D

text \<open>The first render and commit of the component, in the order of the source.\<close>

definition mountChristmasTree :: "(nat \<Rightarrow> real) \<Rightarrow> scene" where
  "mountChristmasTree rng =
     (let r0 = \<lparr>heap = (\<lambda>_. \<lparr>vx = 0, vy = 0, vz = 0\<rparr>), lim = 0, draws = 0\<rparr>;
          (dm, r1) = new_Object3D r0;
          (leaves, r2) = generate (makeLeaf rng) [0..<COUNT_LEAVES] r1;
          (ornaments, r3) = generate (makeOrnament rng) [0..<COUNT_ORNAMENTS] r2;
          (ribbon, r4) = generate (makeRibbon rng) [0..<COUNT_RIBBON] r3;
          (sep, r5) = call_getRandomSpherePoint rng (EXPLOSION_RADIUS * 0.8) r4;
          (stp, r6) = new_Vector3 \<lparr>vx = 0, vy = TREE_HEIGHT + TREE_Y_OFFSET + 0.2, vz = 0\<rparr> r5;
          (st, r7) = new_Object3D r6
      in \<lparr>rt = r7, dummy = dm, leavesData = leaves, ornamentsData = ornaments,
          ribbonData = ribbon, starExplodePos = sep, starTreePos = stp,
          transitionRef = 0, refsAttached = True,
          leavesMesh = new_InstancedMesh COUNT_LEAVES,
          ornamentsMesh = new_InstancedMesh COUNT_ORNAMENTS,
          ribbonMesh = new_InstancedMesh COUNT_RIBBON,
          groupRotation = \<lparr>vx = 0, vy = 0, vz = 0\<rparr>, star = st\<rparr>)"

subsection \<open>components/ChristmasTree.tsx: the animation loop\<close>

text \<open>\<open>const target = mode === AppMode.EXPLODE ? 1 : 0\<close>\<close>

definition transitionTarget :: "AppMode \<Rightarrow> real" where
  "transitionTarget m = (if m = EXPLODE then 1 else 0)"

text \<open>\<open>data.forEach((d, i) => body)\<close>, from index \<open>i\<close> on.\<close>

fun forEach :: "(particle \<Rightarrow> nat \<Rightarrow> scene \<Rightarrow> scene) \<Rightarrow> particle list \<Rightarrow> nat \<Rightarrow> scene \<Rightarrow> scene" where
  "forEach body [] i s = s"
| "forEach body (d # ds) i s = forEach body ds (Suc i) (body d i s)"

definition updateLeaf :: "real \<Rightarrow> real \<Rightarrow> particle \<Rightarrow> nat \<Rightarrow> scene \<Rightarrow> scene" where
  "updateLeaf t elapsedTime d i s =
     (let r1 = lerpVectors (o_position (dummy s)) (treePos d) (explodePos d) t (rt s);
          d1 = (dummy s)\<lparr>o_rotation :=
                 \<lparr>vx = sin (elapsedTime * 0.5 + real i),
                  vy = cos (elapsedTime * 0.3 + real i), vz = 0\<rparr>\<rparr>;
          r2 = setScalar (o_scale d1) (scale d * (1 - t * 0.5)) r1;
          d2 = updateMatrix r2 d1
      in s\<lparr>rt := r2, dummy := d2, leavesMesh := setMatrixAt i (o_matrix d2) (leavesMesh s)\<rparr>)"

definition updateOrnament :: "real \<Rightarrow> real \<Rightarrow> particle \<Rightarrow> nat \<Rightarrow> scene \<Rightarrow> scene" where
  "updateOrnament t elapsedTime d i s =
     (let r1 = lerpVectors (o_position (dummy s)) (treePos d) (explodePos d) t (rt s);
          d1 = (dummy s)\<lparr>o_rotation :=
                 \<lparr>vx = elapsedTime + real i, vy = elapsedTime + real i, vz = 0\<rparr>\<rparr>;
          r2 = setScalar (o_scale d1) (scale d) r1;
          d2 = updateMatrix r2 d1
      in s\<lparr>rt := r2, dummy := d2,
           ornamentsMesh := setMatrixAt i (o_matrix d2) (ornamentsMesh s)\<rparr>)"

definition updateRibbon :: "real \<Rightarrow> real \<Rightarrow> particle \<Rightarrow> nat \<Rightarrow> scene \<Rightarrow> scene" where
  "updateRibbon t elapsedTime d i s =
     (let (c, r1) = clone (explodePos d) (rt s);
          r2 = multiplyScalar c 1.5 r1;
          r3 = lerpVectors (o_position (dummy s)) (treePos d) c t r2;
          d1 = (dummy s)\<lparr>o_rotation :=
                 \<lparr>vx = elapsedTime * 2 + real i, vy = real i * 0.1, vz = 0\<rparr>\<rparr>;
          r4 = setScalar (o_scale d1) (scale d) r3;
          d2 = updateMatrix r4 d1
      in s\<lparr>rt := r4, dummy := d2, ribbonMesh := setMatrixAt i (o_matrix d2) (ribbonMesh s)\<rparr>)"

definition updateStar :: "real \<Rightarrow> real \<Rightarrow> scene \<Rightarrow> scene" where
  "updateStar t elapsedTime s =
     (let r1 = lerpVectors (o_position (star s)) (starTreePos s) (starExplodePos s) t (rt s);
          rot = (o_rotation (star s))\<lparr>vz := elapsedTime * 0.5, vy := sin elapsedTime * 0.2\<rparr>;
          pulse = 1 + sin (elapsedTime * 4) * 0.1;
          baseScale = 1 - t * 0.3;
          r2 = setScalar (o_scale (star s)) (pulse * baseScale) r1
      in s\<lparr>rt := r2, star := (star s)\<lparr>o_rotation := rot\<rparr>\<rparr>)"

text \<open>
  The callback given to \<open>useFrame\<close>, for the props \<open>mode\<close> and \<open>gestureRotation\<close>,
  the clock reading \<open>state.clock.elapsedTime\<close> and the frame time \<open>delta\<close>.
\<close>

definition useFrame :: "AppMode \<Rightarrow> real \<Rightarrow> real \<Rightarrow> real \<Rightarrow> scene \<Rightarrow> scene" where
  "useFrame mode' gestureRotation elapsedTime delta s =
     (if \<not> refsAttached s then s
      else
        let target = transitionTarget mode';
            t = lerp (transitionRef s) target (delta * 2.5);
            s1 = s\<lparr>transitionRef := t,
                   groupRotation := (groupRotation s)\<lparr>vy := elapsedTime * 0.1 + gestureRotation * 5\<rparr>\<rparr>;
            s2 = forEach (updateLeaf t elapsedTime) (leavesData s1) 0 s1;
            s3 = s2\<lparr>leavesMesh := (leavesMesh s2)\<lparr>needsUpdate := True\<rparr>\<rparr>;
            s4 = forEach (updateOrnament t elapsedTime) (ornamentsData s3) 0 s3;
            s5 = s4\<lparr>ornamentsMesh := (ornamentsMesh s4)\<lparr>needsUpdate := True\<rparr>\<rparr>;
            s6 = forEach (updateRibbon t elapsedTime) (ribbonData s5) 0 s5;
            s7 = s6\<lparr>ribbonMesh := (ribbonMesh s6)\<lparr>needsUpdate := True\<rparr>\<rparr>
        in updateStar t elapsedTime s7)"

text \<open>A run of frames; each frame has its own mode, gesture rotation, clock and delta.\<close>

fun runFrames :: "(AppMode \<times> real \<times> real \<times> real) list \<Rightarrow> scene \<Rightarrow> scene" where
  "runFrames [] s = s"
| "runFrames ((m, gestureRotation, elapsedTime, delta) # fs) s =
     runFrames fs (useFrame m gestureRotation elapsedTime delta s)"

text \<open>A sequence of draws for concrete runs: every call of \<open>Math.random()\<close> gives 0.\<close>

definition zeroDraws :: "nat \<Rightarrow> real" where
  "zeroDraws k = 0"

subsection \<open>Reading the store: which vectors belong to whom\<close>








text \<open>Allocation only: the store grows and every vector that existed keeps its contents.\<close>

definition grows :: "runtime \<Rightarrow> runtime \<Rightarrow> bool" where
  "grows r r' = (lim r \<le> lim r' \<and> (\<forall>a. a < lim r \<longrightarrow> heap r' a = heap r a))"


section \<open>Properties\<close>

lemma circle_poly:
  "c\<^sup>2 + s\<^sup>2 = 1 \<Longrightarrow> (c * r)\<^sup>2 + (s * r)\<^sup>2 = r\<^sup>2" for c s r :: real
  by algebra

lemma sphere_poly:
  "c\<^sup>2 + s\<^sup>2 = 1 \<Longrightarrow> d\<^sup>2 + e\<^sup>2 = 1 \<Longrightarrow>
   (r * s * d)\<^sup>2 + (r * s * e)\<^sup>2 + (r * c)\<^sup>2 = r\<^sup>2" for c s d e r :: real
  by algebra

lemma sqrt_circle: "sqrt ((cos a * r)\<^sup>2 + (sin a * r)\<^sup>2) = \<bar>r\<bar>" for a r :: real
  using circle_poly [of "cos a" "sin a" r] by simp

lemma sphere_norm_sq:
  "(r * sin p * cos q)\<^sup>2 + (r * sin p * sin q)\<^sup>2 + (r * cos p)\<^sup>2 = r\<^sup>2"
  for r p q :: real
  using sphere_poly [of "cos p" "sin p" "cos q" "sin q" r] by simp

lemma v3_length_sphere:
  "v3_length (getRandomSpherePoint radius u v w) = \<bar>Math_cbrt w * radius\<bar>"
  by (simp add: v3_length_def getRandomSpherePoint_def Let_def sphere_norm_sq)

lemma cbrt_unit: "0 \<le> w \<Longrightarrow> w \<le> 1 \<Longrightarrow> 0 \<le> Math_cbrt w \<and> Math_cbrt w \<le> 1"
proof -
  assume w: "0 \<le> w" "w \<le> 1"
  have "root 3 w \<le> root 3 1"
    using w by (simp only: real_root_le_iff [of 3 w 1] zero_less_numeral)
  then show ?thesis using w by (simp add: Math_cbrt_def)
qed

lemma axisDistance_tree:
  "axisDistance (getTreePosition index total' radiusBase height yOffset rnd)
     = max 0 (radiusBase * (1 - (index / total') * height / height) + (rnd - 0.5) * 0.5)"
  by (simp add: axisDistance_def getTreePosition_def Let_def sqrt_circle)

lemma axisDistance_ribbon:
  "axisDistance (getRibbonPosition t radiusBase height turns yOffset)
     = \<bar>radiusBase * (1 - t) + 0.2\<bar>"
  by (simp add: axisDistance_def getRibbonPosition_def Let_def sqrt_circle)

text \<open>
  C3. For a radius \<open>\<ge> 0\<close> and draws \<open>u\<close>, \<open>v\<close>, \<open>w\<close> in \<open>[0,1]\<close>, the point
  returned by \<open>getRandomSpherePoint\<close> has Euclidean norm \<open>cbrt w * radius\<close>, which is at
  most \<open>radius\<close>: the point lies in the ball of that radius around the origin.
\<close>

theorem getRandomSpherePoint_in_ball:
  assumes "0 \<le> radius"
    and "0 \<le> u" "u \<le> 1" "0 \<le> v" "v \<le> 1" "0 \<le> w" "w \<le> 1"
  shows "v3_length (getRandomSpherePoint radius u v w) = Math_cbrt w * radius
       \<and> v3_length (getRandomSpherePoint radius u v w) \<le> radius"
proof -
  from assms have c: "0 \<le> Math_cbrt w" "Math_cbrt w \<le> 1"
    using cbrt_unit by blast+
  with assms have "0 \<le> Math_cbrt w * radius" by simp
  then have n: "v3_length (getRandomSpherePoint radius u v w) = Math_cbrt w * radius"
    by (simp add: v3_length_sphere)
  from c assms have "Math_cbrt w * radius \<le> 1 * radius"
    by (intro mult_right_mono) simp_all
  with n show ?thesis by simp
qed

theorem getRandomSpherePoint_in_ball_witness:
  "(0::real) \<le> 15 \<and> v3_length (getRandomSpherePoint 15 0 (1/2) 1) = Math_cbrt 1 * 15
   \<and> v3_length (getRandomSpherePoint 15 0 (1/2) 1) \<le> 15"
  using getRandomSpherePoint_in_ball [of 15 0 "1/2" 1] by simp

text \<open>
  C4. For \<open>0 \<le> index < total\<close>, \<open>total > 0\<close>, \<open>height > 0\<close>, \<open>radiusBase \<ge> 0\<close> and a
  draw in \<open>[0,1]\<close>, the point returned by \<open>getTreePosition\<close> has y-coordinate
  \<open>(index/total) * height + yOffset\<close>, so \<open>y - yOffset\<close> lies in \<open>[0, height)\<close>; its
  distance from the vertical axis is \<open>max 0 (radiusBase * (1 - index/total) + noise)\<close>
  for the noise \<open>(rnd - 0.5) * 0.5\<close>, which lies in \<open>[-0.25, 0.25]\<close>; that distance is
  non-negative and at most \<open>radiusBase * (1 - index/total) + 0.25\<close>.
\<close>

theorem getTreePosition_in_cone:
  assumes "0 \<le> index" "index < total'" "0 < total'" "0 < height" "0 \<le> radiusBase"
    and "0 \<le> rnd" "rnd \<le> 1"
  shows "vy (getTreePosition index total' radiusBase height yOffset rnd)
           = (index / total') * height + yOffset
       \<and> 0 \<le> vy (getTreePosition index total' radiusBase height yOffset rnd) - yOffset
       \<and> vy (getTreePosition index total' radiusBase height yOffset rnd) - yOffset < height
       \<and> - 0.25 \<le> (rnd - 0.5) * 0.5 \<and> (rnd - 0.5) * 0.5 \<le> 0.25
       \<and> axisDistance (getTreePosition index total' radiusBase height yOffset rnd)
           = max 0 (radiusBase * (1 - index / total') + (rnd - 0.5) * 0.5)
       \<and> 0 \<le> axisDistance (getTreePosition index total' radiusBase height yOffset rnd)
       \<and> axisDistance (getTreePosition index total' radiusBase height yOffset rnd)
           \<le> radiusBase * (1 - index / total') + 0.25"
proof -
  let ?p = "getTreePosition index total' radiusBase height yOffset rnd"
  let ?q = "index / total'"
  have q: "0 \<le> ?q" "?q < 1" using assms by simp_all
  have y: "vy ?p = ?q * height + yOffset"
    by (simp add: getTreePosition_def Let_def)
  have y0: "0 \<le> vy ?p - yOffset" using y q assms by simp
  have "?q * height < 1 * height"
    using q assms by (intro mult_strict_right_mono) simp_all
  then have y1: "vy ?p - yOffset < height" using y by simp
  have n: "- 0.25 \<le> (rnd - 0.5) * 0.5" "(rnd - 0.5) * 0.5 \<le> 0.25"
    using assms by simp_all
  have d: "axisDistance ?p = max 0 (radiusBase * (1 - ?q) + (rnd - 0.5) * 0.5)"
    using assms by (simp add: axisDistance_tree)
  have r: "0 \<le> radiusBase * (1 - ?q)" using q assms by simp
  have d0: "0 \<le> axisDistance ?p" using d by simp
  have d1: "axisDistance ?p \<le> radiusBase * (1 - ?q) + 0.25"
    using d r n by simp
  from y y0 y1 n d d0 d1 show ?thesis by blast
qed

theorem getTreePosition_in_cone_witness:
  "(0::real) \<le> 1 \<and> (1::real) < 4
   \<and> vy (getTreePosition 1 4 2 8 (- 2) (1/2)) = 0
   \<and> axisDistance (getTreePosition 1 4 2 8 (- 2) (1/2)) = 3/2"
  using getTreePosition_in_cone [of 1 4 8 2 "1/2" "- 2"] by simp

text \<open>
  C7. \<open>getRibbonPosition\<close> is a function of its arguments alone and returns the point
  \<open>(cos (2*pi*turns*t) * r, t * height + yOffset, sin (2*pi*turns*t) * r)\<close> with
  \<open>r = radiusBase * (1 - t) + 0.2\<close>. At \<open>t = 0\<close> the angle is 0, the height \<open>yOffset\<close>
  and \<open>r = radiusBase + 0.2\<close>; at \<open>t = 1\<close> the angle is \<open>2*pi*turns\<close> (\<open>turns\<close> full
  turns), the height \<open>yOffset + height\<close> and \<open>r = 0.2\<close>. For \<open>t\<close> in \<open>[0,1]\<close> and a
  base radius \<open>\<ge> 0\<close> the distance from the axis is \<open>r\<close>, linear in \<open>t\<close>.
\<close>

theorem getRibbonPosition_spiral:
  "getRibbonPosition t radiusBase height turns yOffset
     = \<lparr>vx = cos (2 * pi * turns * t) * (radiusBase * (1 - t) + 0.2),
        vy = t * height + yOffset,
        vz = sin (2 * pi * turns * t) * (radiusBase * (1 - t) + 0.2)\<rparr>
   \<and> getRibbonPosition 0 radiusBase height turns yOffset
     = \<lparr>vx = cos 0 * (radiusBase + 0.2), vy = yOffset, vz = sin 0 * (radiusBase + 0.2)\<rparr>
   \<and> getRibbonPosition 1 radiusBase height turns yOffset
     = \<lparr>vx = cos (2 * pi * turns) * 0.2, vy = yOffset + height,
        vz = sin (2 * pi * turns) * 0.2\<rparr>
   \<and> (0 \<le> t \<and> t \<le> 1 \<and> 0 \<le> radiusBase \<longrightarrow>
        axisDistance (getRibbonPosition t radiusBase height turns yOffset)
          = radiusBase * (1 - t) + 0.2)"
proof -
  have a: "t * pi * 2 * turns = 2 * pi * turns * t" by simp
  have f: "getRibbonPosition t radiusBase height turns yOffset
     = \<lparr>vx = cos (2 * pi * turns * t) * (radiusBase * (1 - t) + 0.2),
        vy = t * height + yOffset,
        vz = sin (2 * pi * turns * t) * (radiusBase * (1 - t) + 0.2)\<rparr>"
    unfolding getRibbonPosition_def Let_def a by simp
  have f0: "getRibbonPosition 0 radiusBase height turns yOffset
     = \<lparr>vx = cos 0 * (radiusBase + 0.2), vy = yOffset, vz = sin 0 * (radiusBase + 0.2)\<rparr>"
    by (simp add: getRibbonPosition_def Let_def)
  have f1: "getRibbonPosition 1 radiusBase height turns yOffset
     = \<lparr>vx = cos (2 * pi * turns) * 0.2, vy = yOffset + height,
        vz = sin (2 * pi * turns) * 0.2\<rparr>"
    by (simp add: getRibbonPosition_def Let_def mult.commute mult.left_commute)
  have d: "axisDistance (getRibbonPosition t radiusBase height turns yOffset)
          = radiusBase * (1 - t) + 0.2"
    if "0 \<le> t" "t \<le> 1" "0 \<le> radiusBase"
  proof -
    have "0 \<le> radiusBase * (1 - t)" using that by simp
    then show ?thesis by (simp add: axisDistance_ribbon)
  qed
  from f f0 f1 d show ?thesis by blast
qed

theorem getRibbonPosition_spiral_witness:
  "(0::real) \<le> 1/2 \<and> (1/2::real) \<le> 1
   \<and> axisDistance (getRibbonPosition (1/2) 4 10 (7/2) (- 2)) = 11/5"
proof -
  have h: "(0::real) \<le> 1/2 \<and> (1/2::real) \<le> 1 \<and> (0::real) \<le> 4" by simp
  with getRibbonPosition_spiral [of "1/2" 4 10 "7/2" "- 2"]
  have "axisDistance (getRibbonPosition (1/2) 4 10 (7/2) (- 2)) = 4 * (1 - 1/2) + 0.2"
    by blast
  then show ?thesis by simp
qed

text \<open>
  C5. The mode has exactly the two values \<open>TREE\<close> and \<open>EXPLODE\<close>; the click toggle
  sends each to the other, and applied twice it gives back the mode it started from.
\<close>

theorem toggleMode_involution:
  "(m = TREE \<or> m = EXPLODE) \<and> TREE \<noteq> EXPLODE
   \<and> toggleMode TREE = EXPLODE \<and> toggleMode EXPLODE = TREE
   \<and> toggleMode (toggleMode m) = m"
  by (cases m) (simp_all add: toggleMode_def)

lemma classifyHand_Inr:
  assumes "21 \<le> length landmarks"
  shows "classifyHand landmarks =
     Inr \<lparr>isHandDetected = True,
          isPinching = (pinchDistance landmarks < 0.08),
          isOpen = (avgTipDistance landmarks > 0.3 \<and> \<not> pinchDistance landmarks < 0.08),
          handPosition = (1 - lx (landmarks ! 9), ly (landmarks ! 9)),
          rotationOffset = (1 - lx (landmarks ! 9) - 0.5) * 2\<rparr>"
  using assms
  by (simp add: classifyHand_def Let_def pinchDistance_def avgTipDistance_def tipDistance_def
        mult.commute)

text \<open>
  C2. When a hand is detected (its 21 landmarks are present), the frame yields the two
  boolean signals \<open>isPinching\<close> (thumb tip to index tip distance below 0.08) and
  \<open>isOpen\<close> (average fingertip to wrist distance above 0.3, and not pinching), and the
  mode after the frame follows them: \<open>TREE\<close> when pinching, \<open>EXPLODE\<close> when open.
\<close>

theorem onResults_gesture_mapping:
  assumes "21 \<le> length landmarks"
  shows "\<exists>a'. onResults (landmarks # others) a = Inr a'
     \<and> isHandDetected (gestureState a')
     \<and> isPinching (gestureState a') = (pinchDistance landmarks < 0.08)
     \<and> isOpen (gestureState a')
         = (avgTipDistance landmarks > 0.3 \<and> \<not> isPinching (gestureState a'))
     \<and> (isPinching (gestureState a') \<longrightarrow> mode a' = TREE)
     \<and> (isOpen (gestureState a') \<longrightarrow> mode a' = EXPLODE)"
  using classifyHand_Inr [OF assms]
  by (simp add: onResults_def modeTriggers_def handleModeTrigger_def)

theorem onResults_gesture_mapping_witness:
  "21 \<le> length (replicate 21 \<lparr>lx = 0, ly = 0, lz = 0\<rparr>)
   \<and> (\<exists>a'. onResults [replicate 21 \<lparr>lx = 0, ly = 0, lz = 0\<rparr>] (initialApp\<lparr>mode := EXPLODE\<rparr>)
              = Inr a'
          \<and> isPinching (gestureState a') \<and> mode a' = TREE)"
  using onResults_gesture_mapping
    [of "replicate 21 \<lparr>lx = 0, ly = 0, lz = 0\<rparr>" "[]" "initialApp\<lparr>mode := EXPLODE\<rparr>"]
  by (auto simp add: pinchDistance_def Math_hypot_def)

text \<open>
  C9. For every detected hand the two signals exclude each other: \<open>isOpen\<close> is the
  conjunction of the distance test with the negation of \<open>isPinching\<close>, so they are never
  both true, and at most one mode trigger fires in the frame.
\<close>

theorem gesture_signals_exclusive:
  assumes "21 \<le> length landmarks"
  shows "\<exists>g. classifyHand landmarks = Inr g
     \<and> isOpen g = (avgTipDistance landmarks > 0.3 \<and> \<not> isPinching g)
     \<and> \<not> (isPinching g \<and> isOpen g)
     \<and> length (modeTriggers g) \<le> 1"
  using classifyHand_Inr [OF assms] by (simp add: modeTriggers_def)

theorem gesture_signals_exclusive_witness:
  "21 \<le> length (replicate 21 \<lparr>lx = 0, ly = 0, lz = 0\<rparr>)
   \<and> (\<exists>g. classifyHand (replicate 21 \<lparr>lx = 0, ly = 0, lz = 0\<rparr>) = Inr g
          \<and> \<not> (isPinching g \<and> isOpen g) \<and> length (modeTriggers g) \<le> 1)"
  using gesture_signals_exclusive [of "replicate 21 \<lparr>lx = 0, ly = 0, lz = 0\<rparr>"]
  by auto


















lemma forEach_field:
  assumes "\<And>d i s. P (body d i s) = P s"
  shows "P (forEach body ds i s) = P s"
  by (induction ds arbitrary: i s) (simp_all add: assms)

lemma transitionRef_updateLeaf: "transitionRef (updateLeaf t e d i s) = transitionRef s"
  by (simp add: updateLeaf_def Let_def)

lemma transitionRef_updateOrnament: "transitionRef (updateOrnament t e d i s) = transitionRef s"
  by (simp add: updateOrnament_def Let_def)

lemma transitionRef_updateRibbon: "transitionRef (updateRibbon t e d i s) = transitionRef s"
  by (simp add: updateRibbon_def Let_def split_def)

lemma transitionRef_updateStar: "transitionRef (updateStar t e s) = transitionRef s"
  by (simp add: updateStar_def Let_def)

lemma refsAttached_updateLeaf: "refsAttached (updateLeaf t e d i s) = refsAttached s"
  by (simp add: updateLeaf_def Let_def)

lemma refsAttached_updateOrnament: "refsAttached (updateOrnament t e d i s) = refsAttached s"
  by (simp add: updateOrnament_def Let_def)

lemma refsAttached_updateRibbon: "refsAttached (updateRibbon t e d i s) = refsAttached s"
  by (simp add: updateRibbon_def Let_def split_def)

lemma refsAttached_updateStar: "refsAttached (updateStar t e s) = refsAttached s"
  by (simp add: updateStar_def Let_def)

lemma transitionRef_useFrame:
  "transitionRef (useFrame m g e dl s) =
     (if refsAttached s then lerp (transitionRef s) (transitionTarget m) (dl * 2.5)
      else transitionRef s)"
  by (simp add: useFrame_def Let_def transitionRef_updateStar
      forEach_field [where P = transitionRef, OF transitionRef_updateLeaf]
      forEach_field [where P = transitionRef, OF transitionRef_updateOrnament]
      forEach_field [where P = transitionRef, OF transitionRef_updateRibbon])

lemma refsAttached_useFrame: "refsAttached (useFrame m g e dl s) = refsAttached s"
  by (simp add: useFrame_def Let_def refsAttached_updateStar
      forEach_field [where P = refsAttached, OF refsAttached_updateLeaf]
      forEach_field [where P = refsAttached, OF refsAttached_updateOrnament]
      forEach_field [where P = refsAttached, OF refsAttached_updateRibbon])

lemma lerp_distance: "\<bar>lerp a b t - b\<bar> = \<bar>1 - t\<bar> * \<bar>a - b\<bar>"
proof -
  have "lerp a b t - b = (1 - t) * (a - b)" by (simp add: lerp_def algebra_simps)
  then show ?thesis by (simp add: abs_mult)
qed

lemma lerp_closer:
  assumes "0 \<le> f" "f \<le> 1"
  shows "\<bar>lerp a b f - b\<bar> \<le> \<bar>a - b\<bar>"
proof -
  have "\<bar>1 - f\<bar> * \<bar>a - b\<bar> \<le> 1 * \<bar>a - b\<bar>"
    using assms by (intro mult_right_mono) simp_all
  then show ?thesis by (simp add: lerp_distance)
qed

lemma lerp_strictly_closer:
  assumes "0 < f" "f \<le> 1" "a \<noteq> b"
  shows "\<bar>lerp a b f - b\<bar> < \<bar>a - b\<bar>"
proof -
  have "\<bar>1 - f\<bar> * \<bar>a - b\<bar> < 1 * \<bar>a - b\<bar>"
    using assms by (intro mult_strict_right_mono) simp_all
  then show ?thesis by (simp add: lerp_distance)
qed

lemma lerp_unit:
  assumes "0 \<le> f" "f \<le> 1" "0 \<le> a" "a \<le> 1" "0 \<le> b" "b \<le> 1"
  shows "0 \<le> lerp a b f \<and> lerp a b f \<le> 1"
proof -
  have p: "0 \<le> (1 - f) * a" "0 \<le> f * b" using assms by simp_all
  have "(1 - f) * a \<le> (1 - f) * 1" using assms by (intro mult_left_mono) simp_all
  moreover have "f * b \<le> f * 1" using assms by (intro mult_left_mono) simp_all
  ultimately have "(1 - f) * a + f * b \<le> 1" by simp
  with p show ?thesis by (simp add: lerp_def)
qed




lemma makeLeaf_scale:
  "scale (fst (makeLeaf rng i r)) = rng (draws r + 4) * 0.15 + 0.05"
  by (simp add: makeLeaf_def call_getTreePosition_def call_getRandomSpherePoint_def
      new_Vector3_def Math_random_def Let_def split_def eval_nat_numeral)

lemma makeOrnament_scale:
  "scale (fst (makeOrnament rng i r)) = rng (draws r + 5) * 0.05 + 0.02"
  by (simp add: makeOrnament_def call_getTreePosition_def call_getRandomSpherePoint_def
      new_Vector3_def Math_random_def add_y_def Let_def split_def eval_nat_numeral)

lemma makeRibbon_scale: "scale (fst (makeRibbon rng i r)) = 0.08"
  by (simp add: makeRibbon_def Let_def split_def)

lemma generate_length: "length (fst (generate f js r)) = length js"
  by (induction js arbitrary: r) (simp_all add: Let_def split_def)

lemma generate_all:
  assumes "\<And>i r. P (fst (f i r))"
  shows "\<forall>p\<in>set (fst (generate f js r)). P p"
  by (induction js arbitrary: r) (simp_all add: Let_def split_def assms)




lemma grows_makeLeaf: "grows r (snd (makeLeaf rng i r))"
  by (simp add: grows_def makeLeaf_def call_getTreePosition_def call_getRandomSpherePoint_def
      new_Vector3_def Math_random_def Let_def split_def)

lemma grows_makeOrnament: "grows r (snd (makeOrnament rng i r))"
  by (simp add: grows_def makeOrnament_def call_getTreePosition_def
      call_getRandomSpherePoint_def new_Vector3_def Math_random_def add_y_def Let_def split_def)




lemma mount_simple:
  "transitionRef (mountChristmasTree rng) = 0"
  "refsAttached (mountChristmasTree rng)"
  by (simp_all add: mountChristmasTree_def Let_def split_def)

lemma mount_structure:
  obtains r1 r2 r3 r4 where
    "lim r1 = 2"
    "leavesData (mountChristmasTree rng) = fst (generate (makeLeaf rng) [0..<COUNT_LEAVES] r1)"
    "r2 = snd (generate (makeLeaf rng) [0..<COUNT_LEAVES] r1)"
    "ornamentsData (mountChristmasTree rng)
       = fst (generate (makeOrnament rng) [0..<COUNT_ORNAMENTS] r2)"
    "r3 = snd (generate (makeOrnament rng) [0..<COUNT_ORNAMENTS] r2)"
    "ribbonData (mountChristmasTree rng) = fst (generate (makeRibbon rng) [0..<COUNT_RIBBON] r3)"
    "r4 = snd (generate (makeRibbon rng) [0..<COUNT_RIBBON] r3)"
    "o_position (dummy (mountChristmasTree rng)) = 0"
    "o_scale (dummy (mountChristmasTree rng)) = 1"
    "starExplodePos (mountChristmasTree rng) = lim r4"
    "starTreePos (mountChristmasTree rng) = lim r4 + 1"
    "o_position (star (mountChristmasTree rng)) = lim r4 + 2"
    "o_scale (star (mountChristmasTree rng)) = lim r4 + 3"
    "lim (rt (mountChristmasTree rng)) = lim r4 + 4"
    "grows r4 (rt (mountChristmasTree rng))"
proof -
  define r0 :: runtime where "r0 = \<lparr>heap = (\<lambda>_. \<lparr>vx = 0, vy = 0, vz = 0\<rparr>), lim = 0, draws = 0\<rparr>"
  define r1 where "r1 = snd (new_Object3D r0)"
  define r2 where "r2 = snd (generate (makeLeaf rng) [0..<COUNT_LEAVES] r1)"
  define r3 where "r3 = snd (generate (makeOrnament rng) [0..<COUNT_ORNAMENTS] r2)"
  define r4 where "r4 = snd (generate (makeRibbon rng) [0..<COUNT_RIBBON] r3)"
  note defs = mountChristmasTree_def Let_def split_def r0_def r1_def r2_def r3_def r4_def
  have l1: "lim r1 = 2"
    by (simp add: r1_def r0_def new_Object3D_def new_Vector3_def Let_def split_def)
  have d: "o_position (dummy (mountChristmasTree rng)) = 0"
    "o_scale (dummy (mountChristmasTree rng)) = 1"
    by (simp_all add: defs new_Object3D_def new_Vector3_def)
  have a: "leavesData (mountChristmasTree rng) = fst (generate (makeLeaf rng) [0..<COUNT_LEAVES] r1)"
    by (simp add: defs)
  have b: "ornamentsData (mountChristmasTree rng)
       = fst (generate (makeOrnament rng) [0..<COUNT_ORNAMENTS] r2)"
    by (simp add: defs)
  have c: "ribbonData (mountChristmasTree rng) = fst (generate (makeRibbon rng) [0..<COUNT_RIBBON] r3)"
    by (simp add: defs)
  have e: "starExplodePos (mountChristmasTree rng) = lim r4"
    "starTreePos (mountChristmasTree rng) = lim r4 + 1"
    "o_position (star (mountChristmasTree rng)) = lim r4 + 2"
    "o_scale (star (mountChristmasTree rng)) = lim r4 + 3"
    "lim (rt (mountChristmasTree rng)) = lim r4 + 4"
    by (simp_all add: defs new_Object3D_def new_Vector3_def call_getRandomSpherePoint_def
        Math_random_def)
  have g: "grows r4 (rt (mountChristmasTree rng))"
    by (auto simp add: grows_def defs new_Object3D_def new_Vector3_def
        call_getRandomSpherePoint_def Math_random_def)
  from that [OF l1 a r2_def b r3_def c r4_def d e g] show thesis .
qed


lemma mount_lengths:
  "length (leavesData (mountChristmasTree rng)) = COUNT_LEAVES"
  "length (ornamentsData (mountChristmasTree rng)) = COUNT_ORNAMENTS"
  "length (ribbonData (mountChristmasTree rng)) = COUNT_RIBBON"
proof -
  obtain r1 r2 r3 where
    d: "leavesData (mountChristmasTree rng) = fst (generate (makeLeaf rng) [0..<COUNT_LEAVES] r1)"
    "ornamentsData (mountChristmasTree rng)
       = fst (generate (makeOrnament rng) [0..<COUNT_ORNAMENTS] r2)"
    "ribbonData (mountChristmasTree rng) = fst (generate (makeRibbon rng) [0..<COUNT_RIBBON] r3)"
    by (rule mount_structure [of rng]) blast
  show "length (leavesData (mountChristmasTree rng)) = COUNT_LEAVES"
    "length (ornamentsData (mountChristmasTree rng)) = COUNT_ORNAMENTS"
    "length (ribbonData (mountChristmasTree rng)) = COUNT_RIBBON"
    unfolding d by (simp_all add: generate_length)
qed

lemma refsAttached_runFrames: "refsAttached (runFrames fs s) = refsAttached s"
proof (induction fs arbitrary: s)
  case Nil
  show ?case by simp
next
  case (Cons f fs)
  obtain m g e dl where f: "f = (m, g, e, dl)" by (cases f) auto
  have "refsAttached (runFrames fs (useFrame m g e dl s)) = refsAttached (useFrame m g e dl s)"
    by (rule Cons.IH)
  then show ?case unfolding f by (simp only: runFrames.simps refsAttached_useFrame)
qed

text \<open>
  C1. On every animation frame of a run of the mounted component, the transition target is
  1 exactly when the mode is \<open>EXPLODE\<close> and 0 exactly when it is \<open>TREE\<close>, and the stored
  transition value becomes \<open>lerp old target (delta * 2.5)\<close>. For a smoothing factor in
  \<open>[0,1]\<close> the new value is no farther from the target than the old one, and strictly
  closer when the factor is positive and the old value differs from the target.
\<close>

theorem useFrame_transition_update:
  "transitionRef (useFrame m g e dl (runFrames fs (mountChristmasTree rng)))
     = lerp (transitionRef (runFrames fs (mountChristmasTree rng))) (transitionTarget m) (dl * 2.5)
   \<and> (transitionTarget m = 1 \<longleftrightarrow> m = EXPLODE)
   \<and> (transitionTarget m = 0 \<longleftrightarrow> m = TREE)
   \<and> (0 \<le> f \<and> f \<le> 1 \<longrightarrow>
        \<bar>lerp old (transitionTarget m) f - transitionTarget m\<bar> \<le> \<bar>old - transitionTarget m\<bar>)
   \<and> (0 < f \<and> f \<le> 1 \<and> old \<noteq> transitionTarget m \<longrightarrow>
        \<bar>lerp old (transitionTarget m) f - transitionTarget m\<bar> < \<bar>old - transitionTarget m\<bar>)"
proof -
  have "refsAttached (runFrames fs (mountChristmasTree rng))"
    by (simp add: refsAttached_runFrames mount_simple)
  then have u: "transitionRef (useFrame m g e dl (runFrames fs (mountChristmasTree rng)))
     = lerp (transitionRef (runFrames fs (mountChristmasTree rng))) (transitionTarget m) (dl * 2.5)"
    by (simp add: transitionRef_useFrame)
  have t: "(transitionTarget m = 1 \<longleftrightarrow> m = EXPLODE)" "(transitionTarget m = 0 \<longleftrightarrow> m = TREE)"
    by (cases m; simp add: transitionTarget_def)+
  from u t lerp_closer lerp_strictly_closer show ?thesis by blast
qed

theorem useFrame_transition_update_witness:
  "transitionRef (useFrame EXPLODE 0 0 (1/10) (runFrames [] (mountChristmasTree zeroDraws))) = 1/4
   \<and> \<bar>lerp 0 (transitionTarget EXPLODE) (1/2) - transitionTarget EXPLODE\<bar>
       < \<bar>0 - transitionTarget EXPLODE\<bar>"
  using useFrame_transition_update [of EXPLODE 0 0 "1/10" "[]" zeroDraws "1/2" 0]
  by (simp add: mount_simple lerp_def transitionTarget_def)

lemma transition_unit_useFrame:
  assumes "0 \<le> dl" "dl \<le> 2/5" "0 \<le> transitionRef s" "transitionRef s \<le> 1"
  shows "0 \<le> transitionRef (useFrame m g e dl s) \<and> transitionRef (useFrame m g e dl s) \<le> 1"
proof -
  have f: "0 \<le> dl * 2.5" "dl * 2.5 \<le> 1" using assms by simp_all
  have t: "0 \<le> transitionTarget m" "transitionTarget m \<le> 1"
    by (simp_all add: transitionTarget_def)
  show ?thesis
    using lerp_unit [OF f assms(3,4) t] assms(3,4) by (simp add: transitionRef_useFrame)
qed

lemma transition_unit_runFrames:
  assumes "\<forall>(m, g, e, dl)\<in>set fs. 0 \<le> dl \<and> dl \<le> 2/5"
    and "0 \<le> transitionRef s" "transitionRef s \<le> 1"
  shows "0 \<le> transitionRef (runFrames fs s) \<and> transitionRef (runFrames fs s) \<le> 1"
  using assms
proof (induction fs arbitrary: s)
  case Nil
  then show ?case by simp
next
  case (Cons f fs)
  obtain m g e dl where f: "f = (m, g, e, dl)" by (cases f) auto
  with Cons.prems have d: "0 \<le> dl" "dl \<le> 2/5" by simp_all
  have "0 \<le> transitionRef (useFrame m g e dl s) \<and> transitionRef (useFrame m g e dl s) \<le> 1"
    using transition_unit_useFrame [OF d Cons.prems(2,3)] .
  moreover have "\<forall>(m, g, e, dl)\<in>set fs. 0 \<le> dl \<and> dl \<le> 2/5" using Cons.prems(1) by simp
  ultimately show ?case using Cons.IH [of "useFrame m g e dl s"] f by simp
qed

text \<open>
  C6, as amended. The transition value starts at 0 and, for every sequence of modes and
  every sequence of frame deltas with \<open>0 \<le> delta \<le> 0.4\<close> (so that the factor
  \<open>delta * 2.5\<close> is in \<open>[0,1]\<close>), it is in \<open>[0,1]\<close> after every frame.
\<close>

theorem transition_stays_in_unit_interval:
  assumes "\<forall>(m, g, e, dl)\<in>set fs. 0 \<le> dl \<and> dl \<le> 2/5"
  shows "transitionRef (mountChristmasTree rng) = 0
       \<and> 0 \<le> transitionRef (runFrames fs (mountChristmasTree rng))
       \<and> transitionRef (runFrames fs (mountChristmasTree rng)) \<le> 1"
  using transition_unit_runFrames [OF assms, of "mountChristmasTree rng"]
  by (simp add: mount_simple)

theorem transition_stays_in_unit_interval_witness:
  "0 \<le> transitionRef (runFrames [(EXPLODE, 0, 0, 1/10)] (mountChristmasTree zeroDraws))
   \<and> transitionRef (runFrames [(EXPLODE, 0, 0, 1/10)] (mountChristmasTree zeroDraws)) \<le> 1"
  using transition_stays_in_unit_interval [of "[(EXPLODE, 0, 0, 1/10)]" zeroDraws]
  by simp

text \<open>
  C6, as stated, fails: the factor \<open>delta * 2.5\<close> is not clamped. One frame with
  \<open>delta = 1\<close> in mode \<open>EXPLODE\<close>, from the initial value 0, stores 2.5.
\<close>

theorem transition_overshoot_counterexample:
  "(0::real) \<le> 1
   \<and> transitionRef (runFrames [(EXPLODE, 0, 0, 1)] (mountChristmasTree zeroDraws)) = 5/2
   \<and> \<not> transitionRef (runFrames [(EXPLODE, 0, 0, 1)] (mountChristmasTree zeroDraws)) \<le> 1"
  by (simp add: transitionRef_useFrame mount_simple lerp_def transitionTarget_def)








text \<open>
  C10. For draws in \<open>[0,1)\<close>, every generated particle has a positive, bounded scale:
  each of the 5000 leaves in \<open>[0.05, 0.2)\<close>, each of the 1500 ornaments in
  \<open>[0.02, 0.07)\<close>, and each of the 800 ribbon particles exactly 0.08.
\<close>

theorem particle_scales_bounded:
  assumes "\<forall>k. 0 \<le> rng k \<and> rng k < 1"
  shows "(\<forall>p\<in>set (leavesData (mountChristmasTree rng)).
            0 < scale p \<and> 0.05 \<le> scale p \<and> scale p < 0.2)
       \<and> (\<forall>p\<in>set (ornamentsData (mountChristmasTree rng)).
            0 < scale p \<and> 0.02 \<le> scale p \<and> scale p < 0.07)
       \<and> (\<forall>p\<in>set (ribbonData (mountChristmasTree rng)). 0 < scale p \<and> scale p = 0.08)
       \<and> length (leavesData (mountChristmasTree rng)) = 5000
       \<and> length (ornamentsData (mountChristmasTree rng)) = 1500
       \<and> length (ribbonData (mountChristmasTree rng)) = 800"
proof -
  have r: "0 \<le> rng k" "rng k < 1" for k using assms by simp_all
  have l: "0 < scale (fst (makeLeaf rng i r)) \<and> 0.05 \<le> scale (fst (makeLeaf rng i r))
         \<and> scale (fst (makeLeaf rng i r)) < 0.2" for i r
    using r [of "draws r + 4"] by (simp add: makeLeaf_scale)
  have o: "0 < scale (fst (makeOrnament rng i r)) \<and> 0.02 \<le> scale (fst (makeOrnament rng i r))
         \<and> scale (fst (makeOrnament rng i r)) < 0.07" for i r
    using r [of "draws r + 5"] by (simp add: makeOrnament_scale)
  have b: "0 < scale (fst (makeRibbon rng i r)) \<and> scale (fst (makeRibbon rng i r)) = 0.08" for i r
    by (simp add: makeRibbon_scale)
  obtain r1 r2 r3 where
    d: "leavesData (mountChristmasTree rng) = fst (generate (makeLeaf rng) [0..<COUNT_LEAVES] r1)"
    "ornamentsData (mountChristmasTree rng)
       = fst (generate (makeOrnament rng) [0..<COUNT_ORNAMENTS] r2)"
    "ribbonData (mountChristmasTree rng) = fst (generate (makeRibbon rng) [0..<COUNT_RIBBON] r3)"
    by (rule mount_structure [of rng]) blast
  have 1: "\<forall>p\<in>set (leavesData (mountChristmasTree rng)).
            0 < scale p \<and> 0.05 \<le> scale p \<and> scale p < 0.2"
    unfolding d by (rule generate_all) (rule l)
  have 2: "\<forall>p\<in>set (ornamentsData (mountChristmasTree rng)).
            0 < scale p \<and> 0.02 \<le> scale p \<and> scale p < 0.07"
    unfolding d by (rule generate_all) (rule o)
  have 3: "\<forall>p\<in>set (ribbonData (mountChristmasTree rng)). 0 < scale p \<and> scale p = 0.08"
    unfolding d by (rule generate_all) (rule b)
  have 4: "length (leavesData (mountChristmasTree rng)) = 5000"
    "length (ornamentsData (mountChristmasTree rng)) = 1500"
    "length (ribbonData (mountChristmasTree rng)) = 800"
    by (simp_all add: mount_lengths COUNT_LEAVES_def COUNT_ORNAMENTS_def COUNT_RIBBON_def)
  from 1 2 3 4 show ?thesis by blast
qed

theorem particle_scales_bounded_witness:
  "0.05 \<le> scale (leavesData (mountChristmasTree zeroDraws) ! 0)
   \<and> scale (leavesData (mountChristmasTree zeroDraws) ! 0) < 0.2
   \<and> scale (ribbonData (mountChristmasTree zeroDraws) ! 799) = 0.08"
proof -
  have z: "\<forall>k. 0 \<le> zeroDraws k \<and> zeroDraws k < 1" by (simp add: zeroDraws_def)
  have a: "leavesData (mountChristmasTree zeroDraws) ! 0
          \<in> set (leavesData (mountChristmasTree zeroDraws))"
    by (rule nth_mem) (simp add: mount_lengths COUNT_LEAVES_def)
  have b: "ribbonData (mountChristmasTree zeroDraws) ! 799
          \<in> set (ribbonData (mountChristmasTree zeroDraws))"
    by (rule nth_mem) (simp add: mount_lengths COUNT_RIBBON_def)
  from particle_scales_bounded [OF z] a b show ?thesis by blast
qed

end
